theory Spec2Isabelle
  imports Complex_Main "HOL-Library.Monad_Syntax" "HOL-Library.AList"
begin

section \<open>Integer arithmetic of the source language\<close>

text \<open>
  The editor is written in C++: \<open>/\<close> and \<open>%\<close> on \<open>int\<close> truncate towards zero, and
  a zero divisor is undefined behaviour (a trap on the usual targets). The model keeps
  the truncation and makes the zero divisor a failure (\<open>None\<close>). Ticks are modelled as
  unbounded integers; every claim below is about ticks far from the 32-bit limits.
\<close>

definition c_div :: "int \<Rightarrow> int \<Rightarrow> int option" where
  "c_div a b = (if b = 0 then None else Some (sgn a * sgn b * (\<bar>a\<bar> div \<bar>b\<bar>)))"

definition c_mod :: "int \<Rightarrow> int \<Rightarrow> int option" where
  "c_mod a b = (if b = 0 then None else Some (sgn a * (\<bar>a\<bar> mod \<bar>b\<bar>)))"

definition TICKS_PER_BEAT :: int where
  \<comment> \<open>Modelled from the spec: the constant is declared in Constants.h, which is not among
      the sources; the spec fixes the resolution at 480 ticks per beat.\<close>
  "TICKS_PER_BEAT = 480"

section \<open>Data model\<close>

datatype NoteType = Tap | Hold | HoldMid | HoldEnd

datatype FlickType = FlickNone | FlickUp | FlickLeft | FlickRight

datatype EaseType = EaseNone | EaseIn | EaseOut

datatype HoldStepType = Visible | Invisible | Ignored

record Note =
  ID :: int
  noteType :: NoteType
  tick :: int
  lane :: int
  width :: int
  critical :: bool
  flick :: FlickType

record HoldStep =
  stepID :: int
  stepType :: HoldStepType
  ease :: EaseType

record HoldNote =
  start :: HoldStep
  steps :: "HoldStep list"
  endID :: int

record Tempo =
  tempoTick :: int
  bpm :: real

record ScoreMetadata =
  title :: string
  artist :: string
  author :: string
  musicFile :: string
  musicOffset :: real
  jacketFile :: string

text \<open>
  \<open>Score::notes\<close> and \<open>Score::holdNotes\<close> are hash maps keyed by note ID. They are
  modelled as association lists with distinct keys: \<open>map_of\<close> is the lookup, the list
  order is the (unspecified but fixed) iteration order, and \<open>AList.update\<close> overwrites an
  entry in place.
\<close>

record Score =
  metadata :: ScoreMetadata
  "notes" :: "(int \<times> Note) list"
  holdNotes :: "(int \<times> HoldNote) list"
  tempoChanges :: "Tempo list"

record EditorScoreData =
  wd_title :: string
  wd_designer :: string
  wd_artist :: string
  wd_filename :: string
  wd_musicFilename :: string
  wd_musicOffset :: real
  wd_jacket :: string

text \<open>
  A call recorded by the sound table: the effect of a note (always started with end
  offset \<open>-1\<close>) or the sustain loop of a hold. Each entry also records the tick of the
  note on whose behalf the call was made.
\<close>

datatype SoundCall =
  NoteSE int string real
  | ConnectSE int string real real

record AudioManager =
  musicInitialized :: bool
  bgmOffset :: real
  sampleRate :: real
  lengthInFrames :: "nat option"
  seekTarget :: nat
  atEnd :: bool
  cursorSeconds :: real
  bgmStarted :: bool
  sounds :: "string list"
  soundLog :: "SoundCall list"

record HistoryManager =
  undoStack :: "(string \<times> Score \<times> Score) list"
  redoStack :: "(string \<times> Score \<times> Score) list"

record ScoreEditor =
  score :: Score
  prevUpdateScore :: Score
  workingData :: EditorScoreData
  selection :: "int list"
  history :: HistoryManager
  nextID :: int
  uptoDate :: bool
  hasEdit :: bool
  isHoldingNote :: bool
  skipUpdateAfterSortingSteps :: bool
  division :: int
  currentTick :: int
  playing :: bool
  time :: real
  playStartTime :: real
  songPos :: real
  songPosLastFrame :: real
  tickSEMap :: "(int \<times> string) \<rightharpoonup> int"
  audio :: AudioManager

section \<open>Tick snapping\<close>

text \<open>
  \<open>ScoreEditor::snapTick\<close> and \<open>ScoreEditor::roundTickDown\<close>. The divisor
  \<open>TICKS_PER_BEAT / (div / 4)\<close> is evaluated as in the source, first the inner
  quotient, then the outer one, then the remainder by it.
\<close>

definition snapTick :: "int \<Rightarrow> int \<Rightarrow> int option" where
  "snapTick tk dv = do {
     q \<leftarrow> c_div dv 4;
     iv \<leftarrow> c_div TICKS_PER_BEAT q;
     half \<leftarrow> c_div iv 2;
     remaining \<leftarrow> c_mod tk iv;
     let tk1 = tk - remaining;
     let tk2 = (if remaining \<ge> half then tk1 + half * 2 else tk1);
     Some (max tk2 0)
   }"

definition roundTickDown :: "int \<Rightarrow> int \<Rightarrow> int option" where
  "roundTickDown tk dv = do {
     q \<leftarrow> c_div dv 4;
     iv \<leftarrow> c_div TICKS_PER_BEAT q;
     r \<leftarrow> c_mod tk iv;
     Some (max (tk - r) 0)
   }"

definition setDivision :: "int \<Rightarrow> ScoreEditor \<Rightarrow> ScoreEditor" where
  "setDivision dv ed = (if dv \<ge> 4 \<and> dv \<le> 1920 then ed\<lparr>division := dv\<rparr> else ed)"

section \<open>Collaborators outside the sources\<close>

text \<open>
  Functions and constants that the editor calls but that live in files outside the
  sources (the tempo integration, the effect chosen for a note, the file codecs, the
  file dialog, the audio constants). They are parameters of the model: every theorem
  below holds for all of them.
\<close>

datatype exn = runtime_error string | other_exception string

datatype parse_result = Parsed Score int | Thrown exn int

record Externals =
  accumulateDuration :: "int \<Rightarrow> int \<Rightarrow> Tempo list \<Rightarrow> real"
  getNoteSE :: "Note \<Rightarrow> Score \<Rightarrow> string"
  audioLookAhead :: real
  audioOffsetCorrection :: real
  SE_CONNECT :: string
  SE_CRITICAL_CONNECT :: string
  toFrame :: "real \<Rightarrow> nat"
  fileExtension :: "string \<Rightarrow> string"
  SUS_EXTENSION :: string
  MMWS_EXTENSION :: string
  importSUS :: "string \<Rightarrow> int \<Rightarrow> parse_result"
  deserializeScore :: "string \<Rightarrow> int \<Rightarrow> parse_result"
  resetValue :: int
  openTrack :: "string \<Rightarrow> nat option"
  saveFileDialog :: "string option"

section \<open>Audio transport\<close>

text \<open>
  \<open>AudioManager::seekBGM\<close>. The target frame is the float product converted to an
  unsigned 64-bit frame count; the conversion is the parameter \<open>toFrame\<close>. The length
  query of the decoder either succeeds (\<open>Some len\<close>) or fails (\<open>None\<close>), and on failure
  the function returns before it looks at the flag.
\<close>

definition seekBGM :: "Externals \<Rightarrow> real \<Rightarrow> AudioManager \<Rightarrow> AudioManager" where
  "seekBGM ex t a =
    (let seekFrame = toFrame ex ((t - bgmOffset a) * sampleRate a);
         a1 = a\<lparr>seekTarget := seekFrame\<rparr>
     in case lengthInFrames a1 of
          None \<Rightarrow> a1
        | Some len \<Rightarrow>
            if seekFrame > len then a1\<lparr>atEnd := True\<rparr>
            else if atEnd a1 \<and> seekFrame < len then a1\<lparr>atEnd := False\<rparr>
            else a1)"

definition playBGM :: "real \<Rightarrow> AudioManager \<Rightarrow> AudioManager" where
  "playBGM currTime a =
    (if \<not> musicInitialized a then a
     else case lengthInFrames a of
          None \<Rightarrow> a
        | Some len \<Rightarrow>
            if (bgmOffset a - currTime) * sampleRate a * (-1) > real len then a
            else a\<lparr>bgmStarted := True\<rparr>)"

definition stopBGM :: "AudioManager \<Rightarrow> AudioManager" where
  "stopBGM a = a\<lparr>bgmStarted := False, seekTarget := 0\<rparr>"

definition setBGMOffset :: "Externals \<Rightarrow> real \<Rightarrow> real \<Rightarrow> AudioManager \<Rightarrow> AudioManager" where
  "setBGMOffset ex t msec a =
    (let a1 = a\<lparr>bgmOffset := msec / 1000\<rparr>
     in a1\<lparr>seekTarget := toFrame ex ((t - bgmOffset a1) * sampleRate a1)\<rparr>)"

definition changeBGM :: "Externals \<Rightarrow> string \<Rightarrow> AudioManager \<Rightarrow> AudioManager" where
  "changeBGM ex fname a =
    (case openTrack ex fname of
       None \<Rightarrow> a\<lparr>bgmStarted := False, musicInitialized := False, lengthInFrames := None\<rparr>
     | Some len \<Rightarrow> a\<lparr>bgmStarted := False, musicInitialized := True, lengthInFrames := Some len\<rparr>)"

fun callName :: "SoundCall \<Rightarrow> string" where
  "callName (NoteSE tk se st) = se"
| "callName (ConnectSE tk se st en) = se"

text \<open>\<open>AudioManager::playSound\<close>: a name that is not in the sound table plays nothing.\<close>

definition playSound :: "SoundCall \<Rightarrow> AudioManager \<Rightarrow> AudioManager" where
  "playSound c a = (if callName c \<in> set (sounds a) then a\<lparr>soundLog := soundLog a @ [c]\<rparr> else a)"

section \<open>Editor session: playback toggle, load, save, history\<close>

definition togglePlaying :: "Externals \<Rightarrow> ScoreEditor \<Rightarrow> ScoreEditor" where
  "togglePlaying ex ed =
    (let ed1 = ed\<lparr>playing := \<not> playing ed\<rparr>
     in if playing ed1
        then ed1\<lparr>playStartTime := time ed1,
                 audio := playBGM (time ed1) (seekBGM ex (time ed1) (audio ed1))\<rparr>
        else ed1\<lparr>audio := stopBGM (audio ed1)\<rparr>)"

definition readScoreMetadata :: "Externals \<Rightarrow> ScoreEditor \<Rightarrow> ScoreEditor" where
  "readScoreMetadata ex ed =
    (let md = metadata (score ed);
         wd = (workingData ed)\<lparr>wd_title := title md, wd_designer := author md,
                wd_artist := artist md, wd_musicOffset := musicOffset md,
                wd_jacket := jacketFile md, wd_musicFilename := musicFile md\<rparr>
     in ed\<lparr>workingData := wd,
            audio := setBGMOffset ex (time ed) (wd_musicOffset wd)
                       (changeBGM ex (musicFile md) (audio ed))\<rparr>)"

definition writeScoreMetadata :: "ScoreEditor \<Rightarrow> ScoreEditor" where
  "writeScoreMetadata ed =
    (let wd = workingData ed
     in ed\<lparr>score := (score ed)\<lparr>metadata := \<lparr>title = wd_title wd, artist = wd_artist wd,
              author = wd_designer wd, musicFile = wd_musicFilename wd,
              musicOffset = wd_musicOffset wd, jacketFile = wd_jacket wd\<rparr>\<rparr>\<rparr>)"

text \<open>
  Modelled from the spec: \<open>HistoryManager\<close> is declared and defined outside the sources.
  The spec describes a linear history of entries (description, previous snapshot, current
  snapshot): a push discards the redo entries, undo returns the previous snapshot of the
  newest entry and makes it available to redo, redo returns its current snapshot.
\<close>

definition history_push :: "string \<Rightarrow> Score \<Rightarrow> Score \<Rightarrow> HistoryManager \<Rightarrow> HistoryManager" where
  "history_push desc prv cur h = h\<lparr>undoStack := (desc, prv, cur) # undoStack h, redoStack := []\<rparr>"

definition hasUndo :: "HistoryManager \<Rightarrow> bool" where
  "hasUndo h = (undoStack h \<noteq> [])"

definition hasRedo :: "HistoryManager \<Rightarrow> bool" where
  "hasRedo h = (redoStack h \<noteq> [])"

definition history_undo :: "HistoryManager \<Rightarrow> (Score \<times> HistoryManager) option" where
  "history_undo h =
    (case undoStack h of
       [] \<Rightarrow> None
     | e # es \<Rightarrow> Some (fst (snd e), h\<lparr>undoStack := es, redoStack := e # redoStack h\<rparr>))"

definition history_redo :: "HistoryManager \<Rightarrow> (Score \<times> HistoryManager) option" where
  "history_redo h =
    (case redoStack h of
       [] \<Rightarrow> None
     | e # es \<Rightarrow> Some (snd (snd e), h\<lparr>undoStack := e # undoStack h, redoStack := es\<rparr>))"

definition history_clear :: "HistoryManager \<Rightarrow> HistoryManager" where
  "history_clear h = h\<lparr>undoStack := [], redoStack := []\<rparr>"

definition clearSelection :: "ScoreEditor \<Rightarrow> ScoreEditor" where
  \<comment> \<open>Modelled from the spec: the body of \<open>clearSelection\<close> and the selection class are
      outside the sources; the spec gives the selection set a \<open>clear\<close> that empties it.\<close>
  "clearSelection ed = ed\<lparr>selection := []\<rparr>"

definition isUptoDate :: "ScoreEditor \<Rightarrow> bool" where
  "isUptoDate ed = uptoDate ed"

definition pushHistory :: "string \<Rightarrow> Score \<Rightarrow> Score \<Rightarrow> ScoreEditor \<Rightarrow> ScoreEditor" where
  "pushHistory description prv cur ed =
     ed\<lparr>history := history_push description prv cur (history ed), uptoDate := False\<rparr>"

definition undo :: "ScoreEditor \<Rightarrow> ScoreEditor" where
  "undo ed =
    (if hasUndo (history ed)
     then case history_undo (history ed) of
            None \<Rightarrow> ed
          | Some (sc, h) \<Rightarrow> (clearSelection (ed\<lparr>score := sc, history := h\<rparr>))\<lparr>uptoDate := False\<rparr>
     else ed)"

definition redo :: "ScoreEditor \<Rightarrow> ScoreEditor" where
  "redo ed =
    (if hasRedo (history ed)
     then case history_redo (history ed) of
            None \<Rightarrow> ed
          | Some (sc, h) \<Rightarrow> (clearSelection (ed\<lparr>score := sc, history := h\<rparr>))\<lparr>uptoDate := False\<rparr>
     else ed)"

text \<open>
  \<open>ScoreEditor::saveAs\<close> and \<open>ScoreEditor::save\<close>. Writing the file is an effect outside
  the model; \<open>saveFileDialog\<close> is the answer of the file dialog (\<open>None\<close> when the user
  cancels).
\<close>

definition saveAs :: "Externals \<Rightarrow> ScoreEditor \<Rightarrow> ScoreEditor" where
  "saveAs ex ed =
    (case saveFileDialog ex of
       None \<Rightarrow> ed
     | Some fname \<Rightarrow>
         (writeScoreMetadata (ed\<lparr>workingData := (workingData ed)\<lparr>wd_filename := fname\<rparr>\<rparr>))
           \<lparr>uptoDate := True\<rparr>)"

text \<open>The overload \<open>save(filename)\<close> writes the file and leaves the flag alone.\<close>

definition saveTo :: "string \<Rightarrow> ScoreEditor \<Rightarrow> ScoreEditor" where
  "saveTo fname ed = writeScoreMetadata ed"

definition save :: "Externals \<Rightarrow> ScoreEditor \<Rightarrow> ScoreEditor" where
  "save ex ed =
    (if wd_filename (workingData ed) \<noteq> []
     then (writeScoreMetadata ed)\<lparr>uptoDate := True\<rparr>
     else saveAs ex ed)"

text \<open>
  \<open>ScoreEditor::loadScore\<close>. The result pairs the exception that leaves the function
  (\<open>None\<close> on a normal return) with the editor state at that point. The codecs receive
  the allocator value at entry and return the value they leave behind, whether they
  return a score or throw. Only \<open>std::runtime_error\<close> is caught.
\<close>

definition loadFinish :: "Externals \<Rightarrow> ScoreEditor \<Rightarrow> ScoreEditor" where
  "loadFinish ex ed =
     readScoreMetadata ex
       (ed\<lparr>selection := [], history := history_clear (history ed), hasEdit := False\<rparr>)"

definition loadCatch :: "int \<Rightarrow> exn \<Rightarrow> ScoreEditor \<Rightarrow> exn option \<times> ScoreEditor" where
  "loadCatch nextIdBackup e ed =
    (case e of
       runtime_error msg \<Rightarrow> (None, ed\<lparr>nextID := nextIdBackup\<rparr>)
     | other_exception msg \<Rightarrow> (Some e, ed))"

definition loadScore :: "Externals \<Rightarrow> string \<Rightarrow> ScoreEditor \<Rightarrow> exn option \<times> ScoreEditor" where
  "loadScore ex fname ed0 =
    (let ed = (if playing ed0 then togglePlaying ex ed0 else ed0);
         extension = fileExtension ex fname;
         nextIdBackup = nextID ed;
         ed1 = ed\<lparr>nextID := resetValue ex\<rparr>
     in if extension = SUS_EXTENSION ex then
          (case importSUS ex fname (nextID ed1) of
             Thrown e nid \<Rightarrow> loadCatch nextIdBackup e (ed1\<lparr>nextID := nid\<rparr>)
           | Parsed sc nid \<Rightarrow>
               (None, loadFinish ex (ed1\<lparr>nextID := nid, score := sc,
                  workingData := (workingData ed1)\<lparr>wd_filename := []\<rparr>, uptoDate := False\<rparr>)))
        else if extension = MMWS_EXTENSION ex then
          (case deserializeScore ex fname (nextID ed1) of
             Thrown e nid \<Rightarrow> loadCatch nextIdBackup e (ed1\<lparr>nextID := nid\<rparr>)
           | Parsed sc nid \<Rightarrow>
               (None, loadFinish ex (ed1\<lparr>nextID := nid, score := sc, uptoDate := True,
                  workingData := (workingData ed1)\<lparr>wd_filename := fname\<rparr>\<rparr>)))
        else (None, loadFinish ex ed1))"

section \<open>Hold repair on release\<close>

text \<open>\<open>atKey\<close> is the checked lookup (\<open>at\<close> in the source) of the hash maps: \<open>None\<close> is \<open>std::out_of_range\<close>.\<close>

definition atKey :: "(int \<times> 'a) list \<Rightarrow> int \<Rightarrow> 'a option" where
  "atKey m k = map_of m k"

fun forEach :: "('a \<Rightarrow> 's \<Rightarrow> 's option) \<Rightarrow> 'a list \<Rightarrow> 's \<Rightarrow> 's option" where
  "forEach f [] s = Some s"
| "forEach f (x # xs) s = (case f x s of None \<Rightarrow> None | Some s' \<Rightarrow> forEach f xs s')"

text \<open>
  The two \<open>std::swap\<close> calls on the tick and the lane of two notes held by reference
  into the note table (when both references are the same note nothing changes).
\<close>

definition swapTickLane :: "int \<Rightarrow> int \<Rightarrow> (int \<times> Note) list \<Rightarrow> (int \<times> Note) list option" where
  "swapTickLane a b ns = do {
     na \<leftarrow> atKey ns a;
     nb \<leftarrow> atKey ns b;
     Some (AList.update b (nb\<lparr>tick := tick na, lane := lane na\<rparr>)
            (AList.update a (na\<lparr>tick := tick nb, lane := lane nb\<rparr>) ns))
   }"

definition sortHoldSteps :: "Score \<Rightarrow> HoldNote \<Rightarrow> HoldNote option" where
  \<comment> \<open>Modelled from the spec: \<open>sortHoldSteps\<close> is defined outside the sources; the spec
      says it re-sorts the steps of the hold by the tick of the note each step refers to.
      The model sorts stably and fails when a step refers to a missing note.\<close>
  "sortHoldSteps sc h = do {
     keyed \<leftarrow> those (map (\<lambda>s. map_option (\<lambda>n. (tick n, s)) (atKey (notes sc) (stepID s))) (steps h));
     Some (h\<lparr>steps := map snd (sort_key fst keyed)\<rparr>)
   }"

text \<open>The body of the loop over the selected holds, up to the history checkpoint.\<close>

definition normalizeHold :: "int \<Rightarrow> Score \<Rightarrow> Score option" where
  "normalizeHold hid sc = do {
     hold \<leftarrow> atKey (holdNotes sc) hid;
     st \<leftarrow> atKey (notes sc) hid;
     en \<leftarrow> atKey (notes sc) (endID hold);
     ns1 \<leftarrow> (if tick st > tick en then swapTickLane hid (endID hold) (notes sc)
             else Some (notes sc));
     hold1 \<leftarrow> sortHoldSteps (sc\<lparr>notes := ns1\<rparr>) hold;
     ns3 \<leftarrow> (if steps hold1 \<noteq> [] then do {
               st1 \<leftarrow> atKey ns1 hid;
               firstMid \<leftarrow> atKey ns1 (stepID (hd (steps hold1)));
               ns2 \<leftarrow> (if tick st1 > tick firstMid
                       then swapTickLane hid (stepID (hd (steps hold1))) ns1
                       else Some ns1);
               en2 \<leftarrow> atKey ns2 (endID hold);
               lastMid \<leftarrow> atKey ns2 (stepID (last (steps hold1)));
               (if tick en2 < tick lastMid
                then swapTickLane (endID hold) (stepID (last (steps hold1))) ns2
                else Some ns2)
             } else Some ns1);
     Some (sc\<lparr>notes := ns3, holdNotes := AList.update hid hold1 (holdNotes sc)\<rparr>)
   }"

definition holdMembers :: "HoldNote \<Rightarrow> int list" where
  "holdMembers h = stepID (start h) # map stepID (steps h) @ [endID h]"

definition getHolds :: "int list \<Rightarrow> Score \<Rightarrow> int list" where
  \<comment> \<open>Modelled from the spec: the selection class is outside the sources; the spec says
      \<open>getHolds\<close> maps the selected note IDs to the holds they belong to, deduplicated.\<close>
  "getHolds sel sc =
     remdups (concat (map (\<lambda>nid. map fst (filter (\<lambda>(hid, h). nid \<in> set (holdMembers h))
                                                      (holdNotes sc))) sel))"

definition releaseHold :: "int \<Rightarrow> ScoreEditor \<Rightarrow> ScoreEditor option" where
  "releaseHold hid ed = do {
     sc \<leftarrow> normalizeHold hid (score ed);
     Some ((pushHistory ''Update notes'' (prevUpdateScore ed) sc (ed\<lparr>score := sc\<rparr>))
             \<lparr>skipUpdateAfterSortingSteps := True, hasEdit := False\<rparr>)
   }"

text \<open>The "note released" branch of \<open>ScoreEditor::noteControl\<close>.\<close>

definition noteReleased :: "ScoreEditor \<Rightarrow> ScoreEditor option" where
  "noteReleased ed0 =
    (let ed = ed0\<lparr>isHoldingNote := False\<rparr>
     in if hasEdit ed
        then forEach releaseHold (getHolds (selection ed) (score ed)) ed
        else Some ed)"

text \<open>
  The ticks of a hold in gesture order: start, steps in the order of the step list, end.
  The hold invariant of the data model is that this list is sorted.
\<close>

definition holdTicks :: "Score \<Rightarrow> int \<Rightarrow> int list option" where
  "holdTicks sc hid = do {
     hold \<leftarrow> atKey (holdNotes sc) hid;
     st \<leftarrow> atKey (notes sc) hid;
     mids \<leftarrow> those (map (\<lambda>s. atKey (notes sc) (stepID s)) (steps hold));
     en \<leftarrow> atKey (notes sc) (endID hold);
     Some (tick st # map tick mids @ [tick en])
   }"

definition holdInvariant :: "Score \<Rightarrow> int \<Rightarrow> bool" where
  "holdInvariant sc hid = (case holdTicks sc hid of None \<Rightarrow> False | Some ts \<Rightarrow> sorted ts)"

section \<open>Playback scheduler\<close>

text \<open>
  The body of the loop of \<open>ScoreEditor::updateNoteSE\<close> for one note. The key of the
  table is the string \<open>to_string(tick) + "-" + se\<close>; the decimal digits of the tick end
  at the first \<open>-\<close> after the first character, so the string determines the pair
  \<open>(tick, se)\<close>, which the model uses as the key. Times are single-precision floats in
  the source and reals here; the scheduler only subtracts, adds and compares them.
  In the first branch the test \<open>if (se.size());\<close> ends with a semicolon, it guards
  nothing, and the block after it always runs.
\<close>

definition registerSE :: "int \<Rightarrow> string \<Rightarrow> real \<Rightarrow> ScoreEditor \<Rightarrow> ScoreEditor" where
  "registerSE tk se st ed =
    (if tickSEMap ed (tk, se) = None
     then ed\<lparr>audio := playSound (NoteSE tk se st) (audio ed),
             tickSEMap := (tickSEMap ed)((tk, se) \<mapsto> tk)\<rparr>
     else ed)"

definition holdEndTime :: "Externals \<Rightarrow> Note \<Rightarrow> ScoreEditor \<Rightarrow> real option" where
  "holdEndTime ex note ed = do {
     hold \<leftarrow> atKey (holdNotes (score ed)) (ID note);
     en \<leftarrow> atKey (notes (score ed)) (endID hold);
     Some (accumulateDuration ex (tick en) TICKS_PER_BEAT (tempoChanges (score ed)))
   }"

definition connectName :: "Externals \<Rightarrow> Note \<Rightarrow> string" where
  "connectName ex note = (if critical note then SE_CRITICAL_CONNECT ex else SE_CONNECT ex)"

definition scheduleNote :: "Externals \<Rightarrow> Note \<Rightarrow> ScoreEditor \<Rightarrow> ScoreEditor option" where
  "scheduleNote ex note ed =
    (let noteTime = accumulateDuration ex (tick note) TICKS_PER_BEAT (tempoChanges (score ed));
         notePlayTime = noteTime - playStartTime ed;
         offsetNoteTime = noteTime - audioLookAhead ex
     in if offsetNoteTime \<ge> songPosLastFrame ed \<and> offsetNoteTime < songPos ed then
          (let ed1 = registerSE (tick note) (getNoteSE ex note (score ed))
                       (notePlayTime - audioOffsetCorrection ex) ed
           in if noteType note = Hold then do {
                endTime \<leftarrow> holdEndTime ex note ed1;
                Some (ed1\<lparr>audio := playSound
                  (ConnectSE (tick note) (connectName ex note)
                     (notePlayTime - audioOffsetCorrection ex)
                     (endTime - playStartTime ed - audioOffsetCorrection ex)) (audio ed1)\<rparr>)
              } else Some ed1)
        else if time ed = playStartTime ed then
          (let ed1 = (if noteTime \<ge> time ed \<and> offsetNoteTime < time ed
                         \<and> getNoteSE ex note (score ed) \<noteq> []
                      then registerSE (tick note) (getNoteSE ex note (score ed)) notePlayTime ed
                      else ed)
           in if noteType note = Hold then do {
                endTime \<leftarrow> holdEndTime ex note ed1;
                Some (if noteTime - time ed \<le> audioLookAhead ex \<and> endTime > time ed
                      then ed1\<lparr>audio := playSound
                             (ConnectSE (tick note) (connectName ex note)
                                (max 0 notePlayTime) (endTime - playStartTime ed)) (audio ed1)\<rparr>
                      else ed1)
              } else Some ed1)
        else Some ed)"

definition currentSongPos :: "ScoreEditor \<Rightarrow> real" where
  "currentSongPos ed =
    (if musicInitialized (audio ed) \<and> playing ed
        \<and> cursorSeconds (audio ed) \<ge> wd_musicOffset (workingData ed) / 1000
        \<and> \<not> atEnd (audio ed)
     then cursorSeconds (audio ed) + wd_musicOffset (workingData ed) / 1000
     else time ed)"

definition updateNoteSE :: "Externals \<Rightarrow> ScoreEditor \<Rightarrow> ScoreEditor option" where
  "updateNoteSE ex ed0 =
    (let ed1 = ed0\<lparr>songPosLastFrame := songPos ed0\<rparr>;
         ed2 = ed1\<lparr>songPos := currentSongPos ed1\<rparr>
     in if \<not> playing ed2 then Some ed2
        else forEach (scheduleNote ex) (map snd (notes (score ed2)))
               (ed2\<lparr>tickSEMap := Map.empty\<rparr>))"

text \<open>
  Between two calls of the scheduler the host loop moves \<open>time\<close> and the audio thread
  moves the cursor and the end flag of the track. A frame input carries the three values
  the scheduler finds at its next call; a playback run is a list of frame inputs.
\<close>

record FrameInput =
  fi_time :: real
  fi_cursor :: real
  fi_atEnd :: bool

definition pollFrame :: "FrameInput \<Rightarrow> ScoreEditor \<Rightarrow> ScoreEditor" where
  "pollFrame fi ed =
     ed\<lparr>time := fi_time fi,
        audio := (audio ed)\<lparr>cursorSeconds := fi_cursor fi, atEnd := fi_atEnd fi\<rparr>\<rparr>"

definition frame :: "Externals \<Rightarrow> FrameInput \<Rightarrow> ScoreEditor \<Rightarrow> ScoreEditor option" where
  "frame ex fi ed = updateNoteSE ex (pollFrame fi ed)"





section \<open>Example states\<close>

text \<open>Concrete inputs on which the theorems below are exercised.\<close>

definition mkNote :: "int \<Rightarrow> NoteType \<Rightarrow> int \<Rightarrow> int \<Rightarrow> Note" where
  "mkNote i ty tk la =
     \<lparr>ID = i, noteType = ty, tick = tk, lane = la, width = 3, critical = False, flick = FlickNone\<rparr>"

definition mkStep :: "int \<Rightarrow> HoldStep" where
  "mkStep i = \<lparr>stepID = i, stepType = Visible, ease = EaseNone\<rparr>"

definition emptyScore :: Score where
  "emptyScore =
     \<lparr>metadata = \<lparr>title = [], artist = [], author = [], musicFile = [], musicOffset = 0,
                   jacketFile = []\<rparr>,
      notes = [], holdNotes = [], tempoChanges = [\<lparr>tempoTick = 0, bpm = 120\<rparr>]\<rparr>"

text \<open>
  A hold from tick 0 to tick 10 with steps at ticks 1 and 2, whose start note (ID 1) has
  been dragged up to tick 5, past both steps.
\<close>

definition draggedScore :: Score where
  "draggedScore = emptyScore
     \<lparr>notes := [(1, mkNote 1 Hold 5 0), (2, mkNote 2 HoldEnd 10 0),
                (3, mkNote 3 HoldMid 1 2), (4, mkNote 4 HoldMid 2 4)],
      holdNotes := [(1, \<lparr>start = mkStep 1, steps = [mkStep 3, mkStep 4], endID = 2\<rparr>)]\<rparr>"

text \<open>A chart with a single tap note at tick 960.\<close>

definition tapScore :: Score where
  "tapScore = emptyScore\<lparr>notes := [(1, mkNote 1 Tap 960 0)]\<rparr>"

definition exAudio :: AudioManager where
  "exAudio =
     \<lparr>musicInitialized = False, bgmOffset = 0, sampleRate = 44100, lengthInFrames = Some 441000,
      seekTarget = 0, atEnd = False, cursorSeconds = 0, bgmStarted = False,
      sounds = [''perfect'', ''connect'', ''critical_connect''], soundLog = []\<rparr>"

definition exEditor :: ScoreEditor where
  "exEditor =
     \<lparr>score = emptyScore, prevUpdateScore = emptyScore,
      workingData = \<lparr>wd_title = [], wd_designer = [], wd_artist = [], wd_filename = [],
                      wd_musicFilename = [], wd_musicOffset = 0, wd_jacket = []\<rparr>,
      selection = [], history = \<lparr>undoStack = [], redoStack = []\<rparr>, nextID = 0,
      uptoDate = True, hasEdit = False, isHoldingNote = False,
      skipUpdateAfterSortingSteps = False, division = 8, currentTick = 0, playing = False,
      time = 0, playStartTime = 0, songPos = 0, songPosLastFrame = 0,
      tickSEMap = Map.empty, audio = exAudio\<rparr>"

text \<open>
  Example collaborators: one second per 960 ticks, every note sounds \<open>perfect\<close>, a
  lookahead of a tenth of a second, a \<open>.sus\<close> codec that throws after allocating three
  IDs and a native codec that returns the tap chart.
\<close>

definition exExternals :: Externals where
  "exExternals =
     \<lparr>accumulateDuration = (\<lambda>tk tpb tempos. real_of_int tk / 960),
      getNoteSE = (\<lambda>n sc. ''perfect''),
      audioLookAhead = 1 / 10, audioOffsetCorrection = 0,
      SE_CONNECT = ''connect'', SE_CRITICAL_CONNECT = ''critical_connect'',
      toFrame = (\<lambda>x. nat \<lfloor>x\<rfloor>),
      fileExtension = (\<lambda>f. if f = ''a.sus'' then ''.sus'' else ''.mmws''),
      SUS_EXTENSION = ''.sus'', MMWS_EXTENSION = ''.mmws'',
      importSUS = (\<lambda>f nid. Thrown (runtime_error ''bad file'') (nid + 3)),
      deserializeScore = (\<lambda>f nid. Parsed tapScore (nid + 1)),
      resetValue = 0, openTrack = (\<lambda>f. None), saveFileDialog = Some ''b.mmws''\<rparr>"

definition draggedEditor :: ScoreEditor where
  "draggedEditor = exEditor\<lparr>score := draggedScore, selection := [1], hasEdit := True\<rparr>"

definition editedEditor :: ScoreEditor where
  "editedEditor = pushHistory ''Add note'' emptyScore tapScore
     (exEditor\<lparr>score := tapScore, selection := [1],
        workingData := (workingData exEditor)\<lparr>wd_filename := ''c.mmws''\<rparr>\<rparr>)"

definition playingEditor :: ScoreEditor where
  "playingEditor = exEditor\<lparr>score := tapScore, playing := True\<rparr>"

definition atTime :: "real \<Rightarrow> FrameInput" where
  "atTime t = \<lparr>fi_time = t, fi_cursor = 0, fi_atEnd = False\<rparr>"

text \<open>The example hold after one repair.\<close>

definition repairedScore :: Score where
  "repairedScore = draggedScore
     \<lparr>notes := [(1, mkNote 1 Hold 1 2), (2, mkNote 2 HoldEnd 10 0),
                (3, mkNote 3 HoldMid 5 0), (4, mkNote 4 HoldMid 2 4)]\<rparr>"

definition susExternals :: Externals where
  "susExternals = exExternals\<lparr>importSUS := deserializeScore exExternals\<rparr>"

text \<open>
  Collaborators whose \<open>.sus\<close> codec allocates three IDs and then throws an exception
  that is not a \<open>std::runtime_error\<close>, and an editor with a chart and the allocator
  at 7.
\<close>

definition foreignThrowExternals :: Externals where
  "foreignThrowExternals =
     exExternals\<lparr>importSUS := (\<lambda>f nid. Thrown (other_exception ''bad alloc'') (nid + 3))\<rparr>"

definition loadedEditor :: ScoreEditor where
  "loadedEditor = exEditor\<lparr>score := draggedScore, nextID := 7\<rparr>"

text \<open>The playing example editor after a frame at time 1.\<close>

definition afterFirstFrame :: ScoreEditor where
  "afterFirstFrame = playingEditor
     \<lparr>time := 1, songPos := 1, tickSEMap := [(960, ''perfect'') \<mapsto> 960],
      audio := exAudio\<lparr>soundLog := [NoteSE 960 ''perfect'' 1]\<rparr>\<rparr>"

section \<open>Derived notions used in the statements and proofs\<close>

text \<open>The grid step of a division, \<open>TICKS_PER_BEAT / (div / 4)\<close>, for divisions in range.\<close>

definition tickInterval :: "int \<Rightarrow> int" where
  "tickInterval dv = TICKS_PER_BEAT div (dv div 4)"

text \<open>Observations of an editor state and of a score.\<close>

definition editorHoldTicks :: "int \<Rightarrow> ScoreEditor \<Rightarrow> int list option" where
  "editorHoldTicks hid ed = holdTicks (score ed) hid"

definition editorHoldInvariant :: "int \<Rightarrow> ScoreEditor \<Rightarrow> bool" where
  "editorHoldInvariant hid ed = holdInvariant (score ed) hid"

definition stepOrder :: "int \<Rightarrow> Score \<Rightarrow> int list option" where
  "stepOrder hid sc = map_option (\<lambda>h. map stepID (steps h)) (atKey (holdNotes sc) hid)"

definition keyRegistered :: "int \<Rightarrow> string \<Rightarrow> ScoreEditor \<Rightarrow> bool" where
  "keyRegistered tk se ed = (tickSEMap ed (tk, se) \<noteq> None)"








section \<open>Tick snapping: results\<close>

lemma c_div_pos: "0 \<le> a \<Longrightarrow> 0 < b \<Longrightarrow> c_div a b = Some (a div b)"
  by (auto simp: c_div_def sgn_if)

lemma c_mod_pos: "0 \<le> a \<Longrightarrow> 0 < b \<Longrightarrow> c_mod a b = Some (a mod b)"
  by (auto simp: c_mod_def sgn_if)

lemma c_mod_Some: "b \<noteq> 0 \<Longrightarrow> \<exists>r. c_mod a b = Some r"
  by (simp add: c_mod_def)

lemma interval_in_range:
  assumes "4 \<le> dv" "dv \<le> 1920"
  shows "c_div dv 4 = Some (dv div 4)" "1 \<le> dv div 4"
    "c_div TICKS_PER_BEAT (dv div 4) = Some (tickInterval dv)" "1 \<le> tickInterval dv"
proof -
  show "c_div dv 4 = Some (dv div 4)" using assms by (simp add: c_div_pos)
  show b: "1 \<le> dv div 4" using assms by linarith
  have c: "dv div 4 \<le> 480" using assms by linarith
  show "c_div TICKS_PER_BEAT (dv div 4) = Some (tickInterval dv)"
    using b by (simp add: c_div_pos TICKS_PER_BEAT_def tickInterval_def)
  have "0 < 480 div (dv div 4)" using b c by (simp add: pos_imp_zdiv_pos_iff)
  then show "1 \<le> tickInterval dv" by (simp add: tickInterval_def TICKS_PER_BEAT_def)
qed

text \<open>
  For a non-negative tick and a division in range, \<open>roundTickDown\<close> is the greatest
  multiple of the grid step that does not exceed the tick.
\<close>

lemma roundTickDown_floor:
  assumes "0 \<le> tk" "4 \<le> dv" "dv \<le> 1920"
  shows "roundTickDown tk dv = Some (tickInterval dv * (tk div tickInterval dv))"
proof -
  note iv = interval_in_range [OF assms(2,3)]
  have pos: "0 < tickInterval dv" using iv(4) by linarith
  have m: "c_mod tk (tickInterval dv) = Some (tk mod tickInterval dv)"
    using assms(1) pos by (rule c_mod_pos)
  have "tk - tk mod tickInterval dv = tickInterval dv * (tk div tickInterval dv)"
    by (simp add: minus_mod_eq_mult_div)
  moreover have "0 \<le> tickInterval dv * (tk div tickInterval dv)"
    using assms(1) pos by (simp add: pos_imp_zdiv_nonneg_iff)
  ultimately show ?thesis
    by (simp add: roundTickDown_def iv(1) iv(3) m)
qed

text \<open>
  When the grid step is even, \<open>snapTick\<close> rounds a non-negative tick to the nearest
  multiple of the step, a tick exactly halfway going up: the result is the step times
  \<open>\<lfloor>tick / step + 1/2\<rfloor>\<close>.
\<close>

lemma snapTick_even_interval:
  assumes "0 \<le> tk" "4 \<le> dv" "dv \<le> 1920" "even (tickInterval dv)"
  shows "snapTick tk dv =
     Some (tickInterval dv * ((2 * tk + tickInterval dv) div (2 * tickInterval dv)))"
proof -
  note iv = interval_in_range [OF assms(2,3)]
  define d where "d = tickInterval dv"
  have pos: "0 < d" using iv(4) by (simp add: d_def)
  obtain h where h: "d = 2 * h" using assms(4) by (auto simp: d_def elim: evenE)
  have m: "c_mod tk d = Some (tk mod d)" using assms(1) pos by (rule c_mod_pos)
  have hf: "c_div d 2 = Some h" using pos by (simp add: c_div_pos h)
  define q where "q = tk div d"
  define r where "r = tk mod d"
  have tk: "tk = d * q + r" by (simp add: q_def r_def)
  have rb: "0 \<le> r" "r < d" using pos by (simp_all add: r_def)
  have qn: "0 \<le> q" using assms(1) pos by (simp add: q_def pos_imp_zdiv_nonneg_iff)
  have key: "(2 * tk + d) div (2 * d) = (if h \<le> r then q + 1 else q)"
  proof (cases "h \<le> r")
    case True
    have "2 * tk + d = (q + 1) * (2 * d) + (2 * r - d)" by (simp add: tk algebra_simps)
    moreover have "0 \<le> 2 * r - d" "2 * r - d < 2 * d" using True rb h by simp_all
    ultimately have "(2 * tk + d) div (2 * d) = q + 1"
      using pos by (metis div_pos_pos_trivial add.commute add_cancel_left_left div_mult_self3
          less_numeral_extra(3) mult_eq_0_iff zero_neq_numeral)
    then show ?thesis using True by simp
  next
    case False
    have "2 * tk + d = q * (2 * d) + (2 * r + d)" by (simp add: tk algebra_simps)
    moreover have "0 \<le> 2 * r + d" "2 * r + d < 2 * d" using False rb h by simp_all
    ultimately have "(2 * tk + d) div (2 * d) = q"
      using pos by (metis div_pos_pos_trivial add.commute add_cancel_left_left div_mult_self3
          less_numeral_extra(3) mult_eq_0_iff zero_neq_numeral)
    then show ?thesis using False by simp
  qed
  have res: "tk - r + (if h \<le> r then h * 2 else 0) = d * (if h \<le> r then q + 1 else q)"
    by (simp add: tk h algebra_simps)
  have nn: "0 \<le> d * (if h \<le> r then q + 1 else q)" using pos qn by simp
  have "snapTick tk dv = Some (max (tk - r + (if h \<le> r then h * 2 else 0)) 0)"
    by (simp add: snapTick_def iv(1) iv(3) d_def [symmetric] m hf r_def [symmetric] Let_def)
  also have "\<dots> = Some (d * (if h \<le> r then q + 1 else q))"
    unfolding res using nn by (simp only: max_absorb1)
  finally show ?thesis
    unfolding d_def [symmetric] key .
qed

text \<open>
  Claim C5. \<open>snapTick\<close> is to return the nearest multiple of the grid step for every
  accepted division. Division 128 is accepted and has the odd grid step 15; the source
  adds \<open>half * 2 = 14\<close> instead of the step, so tick 8 snaps to 14, which is not on the
  grid (the nearest grid tick is 15), and tick 7 snaps up to 14 although the nearest grid
  tick is 0.
\<close>

theorem snapTick_odd_interval:
  "tickInterval 128 = 15 \<and> snapTick 8 128 = Some 14 \<and> snapTick 7 128 = Some 14
   \<and> \<not> tickInterval 128 dvd 14 \<and> roundTickDown 8 128 = Some 0"
  by (simp add: tickInterval_def snapTick_def roundTickDown_def c_div_def c_mod_def
      TICKS_PER_BEAT_def)

text \<open>
  Claim C9. \<open>setDivision\<close> keeps the division within \<open>[4, 1920]\<close>; for every such
  division \<open>div / 4\<close> and \<open>TICKS_PER_BEAT / (div / 4)\<close> are at least 1, so neither
  \<open>snapTick\<close> nor \<open>roundTickDown\<close> meets a zero divisor: both return a value.
\<close>

theorem no_zero_divisor:
  assumes "4 \<le> division ed" and "division ed \<le> 1920"
  shows "4 \<le> division (setDivision dv ed) \<and> division (setDivision dv ed) \<le> 1920
    \<and> (\<exists>q iv. c_div (division (setDivision dv ed)) 4 = Some q \<and> 1 \<le> q
          \<and> c_div TICKS_PER_BEAT q = Some iv \<and> 1 \<le> iv)
    \<and> (\<exists>r. snapTick tk (division (setDivision dv ed)) = Some r)
    \<and> (\<exists>r. roundTickDown tk (division (setDivision dv ed)) = Some r)"
proof -
  define d where "d = division (setDivision dv ed)"
  have rng: "4 \<le> d" "d \<le> 1920"
    using assms by (auto simp: d_def setDivision_def)
  note iv = interval_in_range [OF rng]
  have nz: "tickInterval d \<noteq> 0" using iv(4) by linarith
  obtain r where r: "c_mod tk (tickInterval d) = Some r"
    using c_mod_Some [OF nz] by blast
  have h: "c_div (tickInterval d) 2 = Some (tickInterval d div 2)"
    using iv(4) by (simp add: c_div_pos)
  have s: "\<exists>r. snapTick tk d = Some r"
    by (simp add: snapTick_def iv(1) iv(3) h r Let_def)
  have rd: "\<exists>r. roundTickDown tk d = Some r"
    by (simp add: roundTickDown_def iv(1) iv(3) r)
  show ?thesis unfolding d_def [symmetric]
    using rng iv s rd by blast
qed

theorem no_zero_divisor_witness:
  "4 \<le> division exEditor \<and> division exEditor \<le> 1920
   \<and> division (setDivision 1920 exEditor) = 1920
   \<and> (\<exists>r. snapTick 7 (division (setDivision 1920 exEditor)) = Some r)
   \<and> (\<exists>r. roundTickDown 7 (division (setDivision 1920 exEditor)) = Some r)"
proof -
  have h: "4 \<le> division exEditor" "division exEditor \<le> 1920"
    by (simp_all add: exEditor_def)
  show ?thesis
    using h no_zero_divisor [OF h, of 1920 7] by (simp add: setDivision_def)
qed

section \<open>Audio transport: results\<close>

text \<open>
  Claim C8. A seek whose target frame exceeds the length of the track sets the end flag;
  a seek to a frame before the length while the flag is set clears it; every other seek,
  also one whose length query fails, leaves the flag as it was.
\<close>

theorem seek_end_flag:
  "(lengthInFrames a = Some len \<and> toFrame ex ((t - bgmOffset a) * sampleRate a) > len
      \<longrightarrow> atEnd (seekBGM ex t a))
   \<and> (lengthInFrames a = Some len \<and> atEnd a
        \<and> toFrame ex ((t - bgmOffset a) * sampleRate a) < len
      \<longrightarrow> \<not> atEnd (seekBGM ex t a))
   \<and> (\<not> (\<exists>n. lengthInFrames a = Some n \<and> toFrame ex ((t - bgmOffset a) * sampleRate a) > n)
      \<and> \<not> (\<exists>n. lengthInFrames a = Some n \<and> atEnd a
               \<and> toFrame ex ((t - bgmOffset a) * sampleRate a) < n)
      \<longrightarrow> atEnd (seekBGM ex t a) = atEnd a)"
  by (auto simp: seekBGM_def Let_def split: option.splits)

theorem seek_end_flag_witness:
  "atEnd (seekBGM exExternals 11 exAudio)
   \<and> \<not> atEnd (seekBGM exExternals 5 (exAudio\<lparr>atEnd := True\<rparr>))
   \<and> atEnd (seekBGM exExternals 10 (exAudio\<lparr>atEnd := True\<rparr>))
   \<and> \<not> atEnd (seekBGM exExternals 5 exAudio)
   \<and> atEnd (seekBGM exExternals 5 (exAudio\<lparr>atEnd := True, lengthInFrames := None\<rparr>))"
proof -
  have f: "toFrame exExternals ((11 - bgmOffset exAudio) * sampleRate exAudio) = 485100"
    "toFrame exExternals ((5 - bgmOffset exAudio) * sampleRate exAudio) = 220500"
    "toFrame exExternals ((10 - bgmOffset exAudio) * sampleRate exAudio) = 441000"
    by (simp_all add: exExternals_def exAudio_def)
  have l: "lengthInFrames exAudio = Some 441000" "\<not> atEnd exAudio"
    by (simp_all add: exAudio_def)
  show ?thesis
    using seek_end_flag [of exAudio 441000 exExternals 11]
      seek_end_flag [of "exAudio\<lparr>atEnd := True\<rparr>" 441000 exExternals 5]
      seek_end_flag [of "exAudio\<lparr>atEnd := True\<rparr>" 441000 exExternals 10]
      seek_end_flag [of "exAudio" 441000 exExternals 5]
      seek_end_flag [of "exAudio\<lparr>atEnd := True, lengthInFrames := None\<rparr>" 0 exExternals 5]
      f l
    by simp
qed

section \<open>Editor session: results\<close>

lemma togglePlaying_keeps:
  "nextID (togglePlaying ex ed) = nextID ed" "score (togglePlaying ex ed) = score ed"
  by (simp_all add: togglePlaying_def Let_def)

text \<open>
  Claim C6. The claim has the allocator rolled back whenever the parse step throws.
  \<open>loadScore\<close> catches \<open>std::runtime_error\<close> only: when the codec throws an exception
  of another type after allocating three IDs, the exception leaves \<open>loadScore\<close> and
  the allocator stays at 3 instead of returning to 7. The chart is still the old one.
\<close>

theorem foreign_exception_counterexample:
  "fst (loadScore foreignThrowExternals ''a.sus'' loadedEditor) = Some (other_exception ''bad alloc'')
   \<and> nextID loadedEditor = 7
   \<and> nextID (snd (loadScore foreignThrowExternals ''a.sus'' loadedEditor)) = 3
   \<and> score (snd (loadScore foreignThrowExternals ''a.sus'' loadedEditor)) = score loadedEditor"
  by (simp add: loadScore_def loadCatch_def Let_def foreignThrowExternals_def exExternals_def
      loadedEditor_def exEditor_def)

text \<open>
  Whatever the codec throws, the assignment to the chart never happens: the chart stays
  in place, and an exception that is not caught leaves the function with the allocator
  at the value the codec reached.
\<close>

lemma failed_load_keeps_chart:
  assumes "(fileExtension ex fname = SUS_EXTENSION ex
              \<and> importSUS ex fname (resetValue ex) = Thrown e nid)
         \<or> (fileExtension ex fname \<noteq> SUS_EXTENSION ex
              \<and> fileExtension ex fname = MMWS_EXTENSION ex
              \<and> deserializeScore ex fname (resetValue ex) = Thrown e nid)"
  shows "score (snd (loadScore ex fname ed)) = score ed"
    and "e = other_exception msg \<Longrightarrow> fst (loadScore ex fname ed) = Some e
           \<and> nextID (snd (loadScore ex fname ed)) = nid"
  using assms
  by (auto simp: loadScore_def loadCatch_def Let_def togglePlaying_keeps split: exn.splits)

text \<open>
  Claim C6, as amended. When the codec of the file throws a \<open>std::runtime_error\<close>, the
  exception that \<open>loadScore\<close> catches, the function returns normally, the ID allocator
  has the value it had before the call and the chart is the chart from before the call.
\<close>

theorem failed_load_is_transactional:
  assumes "(fileExtension ex fname = SUS_EXTENSION ex
              \<and> importSUS ex fname (resetValue ex) = Thrown (runtime_error msg) nid)
         \<or> (fileExtension ex fname \<noteq> SUS_EXTENSION ex
              \<and> fileExtension ex fname = MMWS_EXTENSION ex
              \<and> deserializeScore ex fname (resetValue ex) = Thrown (runtime_error msg) nid)"
  shows "fst (loadScore ex fname ed) = None
       \<and> nextID (snd (loadScore ex fname ed)) = nextID ed
       \<and> score (snd (loadScore ex fname ed)) = score ed"
  using assms
  by (auto simp: loadScore_def loadCatch_def Let_def togglePlaying_keeps)

theorem failed_load_is_transactional_witness:
  "fst (loadScore exExternals ''a.sus'' (exEditor\<lparr>score := draggedScore, nextID := 7\<rparr>)) = None
   \<and> nextID (snd (loadScore exExternals ''a.sus''
                     (exEditor\<lparr>score := draggedScore, nextID := 7\<rparr>))) = 7
   \<and> score (snd (loadScore exExternals ''a.sus''
                    (exEditor\<lparr>score := draggedScore, nextID := 7\<rparr>))) = draggedScore"
  using failed_load_is_transactional [of exExternals "''a.sus''" "''bad file''" 3
          "exEditor\<lparr>score := draggedScore, nextID := 7\<rparr>"]
  by (simp add: exExternals_def)

text \<open>
  Claim C7. The claim has the chart not marked modified directly after load, save, undo
  and redo. In the source a successful undo and a successful redo set \<open>uptoDate = false\<close>:
  after saving the edited chart and undoing the edit, the chart is marked modified.
\<close>

theorem undo_marks_modified_counterexample:
  "isUptoDate (save exExternals editedEditor)
   \<and> \<not> isUptoDate (undo (save exExternals editedEditor))"
  by (simp add: isUptoDate_def save_def editedEditor_def pushHistory_def history_push_def
      exEditor_def writeScoreMetadata_def Let_def undo_def hasUndo_def history_undo_def
      clearSelection_def)

text \<open>
  Claim C7, as amended. The chart is marked modified after every history checkpoint,
  after every successful undo or redo and after the import of a SUS file. It is marked
  not modified directly after a native load and after a save that writes the working
  file (a known file name, or a confirmed save-as). An undo or redo with nothing to
  restore, a cancelled save-as and the save to an explicit file name leave the flag as
  it was.
\<close>

theorem modified_flag:
  "\<not> isUptoDate (pushHistory d p c ed)
   \<and> (hasUndo (history ed) \<longrightarrow> \<not> isUptoDate (undo ed))
   \<and> (hasRedo (history ed) \<longrightarrow> \<not> isUptoDate (redo ed))
   \<and> (\<not> hasUndo (history ed) \<longrightarrow> undo ed = ed)
   \<and> (\<not> hasRedo (history ed) \<longrightarrow> redo ed = ed)
   \<and> (wd_filename (workingData ed) \<noteq> [] \<or> saveFileDialog ex \<noteq> None
        \<longrightarrow> isUptoDate (save ex ed))
   \<and> (wd_filename (workingData ed) = [] \<and> saveFileDialog ex = None \<longrightarrow> save ex ed = ed)
   \<and> isUptoDate (saveTo g ed) = isUptoDate ed
   \<and> (fileExtension ex f \<noteq> SUS_EXTENSION ex \<and> fileExtension ex f = MMWS_EXTENSION ex
        \<and> deserializeScore ex f (resetValue ex) = Parsed sc nid
        \<longrightarrow> isUptoDate (snd (loadScore ex f ed)))
   \<and> (fileExtension ex f = SUS_EXTENSION ex \<and> importSUS ex f (resetValue ex) = Parsed sc nid
        \<longrightarrow> \<not> isUptoDate (snd (loadScore ex f ed)))"
  by (auto simp: isUptoDate_def pushHistory_def undo_def redo_def hasUndo_def hasRedo_def
      history_undo_def history_redo_def clearSelection_def save_def saveAs_def saveTo_def
      writeScoreMetadata_def loadScore_def loadFinish_def readScoreMetadata_def Let_def
      split: list.splits option.splits)

lemma editedEditor_facts:
  "hasUndo (history editedEditor)" "hasRedo (history (undo editedEditor))"
  "\<not> hasRedo (history editedEditor)" "selection editedEditor = [1]"
  "wd_filename (workingData editedEditor) = ''c.mmws''"
  "wd_filename (workingData exEditor) = []"
  by (simp_all add: editedEditor_def pushHistory_def history_push_def hasUndo_def hasRedo_def
      exEditor_def undo_def history_undo_def clearSelection_def)

lemma exExternals_facts:
  "fileExtension exExternals ''d.mmws'' = ''.mmws''" "SUS_EXTENSION exExternals = ''.sus''"
  "MMWS_EXTENSION exExternals = ''.mmws''" "resetValue exExternals = 0"
  "deserializeScore exExternals ''d.mmws'' 0 = Parsed tapScore 1"
  "fileExtension susExternals ''a.sus'' = ''.sus''" "SUS_EXTENSION susExternals = ''.sus''"
  "resetValue susExternals = 0" "importSUS susExternals ''a.sus'' 0 = Parsed tapScore 1"
  "saveFileDialog (exExternals\<lparr>saveFileDialog := None\<rparr>) = None"
  by (simp_all add: exExternals_def susExternals_def)

theorem modified_flag_witness:
  "\<not> isUptoDate (pushHistory ''Add note'' emptyScore tapScore exEditor)
   \<and> \<not> isUptoDate (undo editedEditor)
   \<and> \<not> isUptoDate (redo (undo editedEditor))
   \<and> undo exEditor = exEditor
   \<and> redo editedEditor = editedEditor
   \<and> isUptoDate (save exExternals editedEditor)
   \<and> save (exExternals\<lparr>saveFileDialog := None\<rparr>) exEditor = exEditor
   \<and> isUptoDate (snd (loadScore exExternals ''d.mmws'' editedEditor))
   \<and> \<not> isUptoDate (snd (loadScore susExternals ''a.sus'' exEditor))"
proof -
  have nu: "\<not> hasUndo (history exEditor)" by (simp add: hasUndo_def exEditor_def)
  show ?thesis
    using modified_flag [where ed = exEditor and d = "''Add note''" and p = emptyScore
        and c = tapScore and ex = "exExternals\<lparr>saveFileDialog := None\<rparr>"]
      modified_flag [where ed = editedEditor and ex = exExternals and f = "''d.mmws''"
        and sc = tapScore and nid = 1]
      modified_flag [where ed = "undo editedEditor"]
      modified_flag [where ed = exEditor and ex = susExternals and f = "''a.sus''"
        and sc = tapScore and nid = 1]
      editedEditor_facts exExternals_facts nu
    by simp
qed

text \<open>
  Claim C10. Every undo and every redo that restores a snapshot leaves the selection
  empty, whatever was selected before.
\<close>

theorem undo_redo_clear_selection:
  "(hasUndo (history ed) \<longrightarrow> selection (undo ed) = [])
   \<and> (hasRedo (history ed) \<longrightarrow> selection (redo ed) = [])"
  by (auto simp: undo_def redo_def hasUndo_def hasRedo_def history_undo_def history_redo_def
      clearSelection_def split: list.splits)

theorem undo_redo_clear_selection_witness:
  "hasUndo (history editedEditor) \<and> selection editedEditor = [1]
   \<and> selection (undo editedEditor) = []
   \<and> hasRedo (history (undo editedEditor)) \<and> selection (redo (undo editedEditor)) = []"
  using undo_redo_clear_selection [of editedEditor]
    undo_redo_clear_selection [of "undo editedEditor"]
  by (simp add: editedEditor_facts)

section \<open>Hold repair: results\<close>

lemma repaired_step_order:
  "map_option (stepOrder 1) (normalizeHold 1 draggedScore) = Some (Some [3, 4])"
  by code_simp

lemma repaired_twice_step_order:
  "map_option (stepOrder 1) (normalizeHold 1 draggedScore \<bind> normalizeHold 1)
     = Some (Some [4, 3])"
  by code_simp

text \<open>The repair of the example hold, evaluated step by step.\<close>

lemma normalizeHold_dragged: "normalizeHold 1 draggedScore = Some repairedScore"
  by code_simp

lemma getHolds_dragged: "getHolds [1] draggedScore = [1]"
  by code_simp

lemma holdTicks_repaired: "holdTicks repairedScore 1 = Some [1, 5, 2, 10]"
  by code_simp

lemma noteReleased_dragged:
  "map_option score (noteReleased draggedEditor) = Some repairedScore"
  by (simp add: noteReleased_def draggedEditor_def exEditor_def getHolds_dragged
      releaseHold_def normalizeHold_dragged pushHistory_def)

lemma released_hold_ticks:
  "map_option (editorHoldTicks 1) (noteReleased draggedEditor) = Some (Some [1, 5, 2, 10])"
  using noteReleased_dragged holdTicks_repaired
  by (auto simp: editorHoldTicks_def)

lemma released_hold_invariant:
  "map_option (editorHoldInvariant 1) (noteReleased draggedEditor) = Some False"
  using noteReleased_dragged holdTicks_repaired
  by (auto simp: editorHoldInvariant_def holdInvariant_def)

text \<open>
  Claim C1. After the repair every hold is to have its ticks in gesture order. The start
  of the example hold was dragged past two steps; the repair sorts the steps (ticks 1, 2),
  then swaps the start (tick 5) with the first step, and leaves the step list holding
  ticks 5, 2 between start 1 and end 10: the order is broken after the repair.
\<close>

theorem release_breaks_hold_order:
  "map_option (editorHoldTicks 1) (noteReleased draggedEditor) = Some (Some [1, 5, 2, 10])
   \<and> map_option (editorHoldInvariant 1) (noteReleased draggedEditor) = Some False"
  by (simp add: released_hold_ticks released_hold_invariant)

text \<open>
  Claim C4. Running the repair a second time on the example hold sorts the steps that the
  first run left out of order, so the second run changes the hold: the repair is not
  idempotent.
\<close>

theorem normalization_not_idempotent:
  "normalizeHold 1 draggedScore \<bind> normalizeHold 1 \<noteq> normalizeHold 1 draggedScore"
  using repaired_step_order repaired_twice_step_order by auto

section \<open>Playback scheduler: results\<close>

subsection \<open>One note\<close>


















subsection \<open>One frame\<close>







subsection \<open>A playback run\<close>














text \<open>Two successive frames of the example run, evaluated one after the other.\<close>

lemma first_frame:
  "frame exExternals (atTime 1) playingEditor = Some afterFirstFrame"
  by (simp add: frame_def updateNoteSE_def pollFrame_def currentSongPos_def atTime_def
      playingEditor_def exEditor_def exAudio_def tapScore_def emptyScore_def mkNote_def
      exExternals_def scheduleNote_def registerSE_def playSound_def afterFirstFrame_def
      TICKS_PER_BEAT_def Let_def)

lemma second_frame_forgets:
  "map_option (keyRegistered 960 ''perfect'') (frame exExternals (atTime (11/10)) afterFirstFrame)
     = Some False"
  by (simp add: frame_def updateNoteSE_def pollFrame_def currentSongPos_def atTime_def
      playingEditor_def exEditor_def exAudio_def tapScore_def emptyScore_def mkNote_def
      exExternals_def scheduleNote_def registerSE_def playSound_def afterFirstFrame_def
      keyRegistered_def TICKS_PER_BEAT_def Let_def)

lemma second_frame_playing:
  "map_option playing (frame exExternals (atTime (11/10)) afterFirstFrame) = Some True"
  by (simp add: frame_def updateNoteSE_def pollFrame_def currentSongPos_def atTime_def
      playingEditor_def exEditor_def exAudio_def tapScore_def emptyScore_def mkNote_def
      exExternals_def scheduleNote_def registerSE_def playSound_def afterFirstFrame_def
      TICKS_PER_BEAT_def Let_def)

lemma afterFirstFrame_facts:
  "keyRegistered 960 ''perfect'' afterFirstFrame" "playing afterFirstFrame"
  by (simp_all add: afterFirstFrame_def keyRegistered_def playingEditor_def)

text \<open>
  Claim C3. The claim has the table cleared at the start of a playback run and at no
  other time, so that it persists from frame to frame. In the source the scheduler clears
  it in every frame in which playback is active: the key registered in one frame of the
  example run is gone after the next frame of the same run.
\<close>

theorem dedup_table_counterexample:
  "map_option (keyRegistered 960 ''perfect'') (frame exExternals (atTime 1) playingEditor)
     = Some True
   \<and> map_option playing (frame exExternals (atTime 1) playingEditor) = Some True
   \<and> map_option (keyRegistered 960 ''perfect'')
       (frame exExternals (atTime 1) playingEditor \<bind> frame exExternals (atTime (11/10)))
     = Some False
   \<and> map_option playing
       (frame exExternals (atTime 1) playingEditor \<bind> frame exExternals (atTime (11/10)))
     = Some True"
  by (simp add: first_frame afterFirstFrame_facts second_frame_forgets second_frame_playing)

text \<open>
  Claim C3, as amended. The table is cleared at the start of the note scan of every frame
  in which playback is active, so the outcome of such a frame does not depend on the
  table the earlier frames left behind. A frame while playback is stopped leaves the
  table as it is, and so does the toggle between stopped and playing.
\<close>

theorem dedup_table_lifetime:
  "(playing ed \<longrightarrow> updateNoteSE ex (ed\<lparr>tickSEMap := m\<rparr>) = updateNoteSE ex ed)
   \<and> (\<not> playing ed \<longrightarrow> map_option tickSEMap (updateNoteSE ex ed) = Some (tickSEMap ed))
   \<and> tickSEMap (togglePlaying ex ed) = tickSEMap ed"
  by (simp add: updateNoteSE_def Let_def currentSongPos_def togglePlaying_def)

theorem dedup_table_lifetime_witness:
  "updateNoteSE exExternals (playingEditor\<lparr>tickSEMap := [(960, ''perfect'') \<mapsto> 960]\<rparr>)
     = updateNoteSE exExternals playingEditor
   \<and> map_option tickSEMap
       (updateNoteSE exExternals (exEditor\<lparr>tickSEMap := [(960, ''perfect'') \<mapsto> 960]\<rparr>))
     = Some [(960, ''perfect'') \<mapsto> 960]"
  using dedup_table_lifetime [of playingEditor exExternals "[(960, ''perfect'') \<mapsto> 960]"]
    dedup_table_lifetime [of "exEditor\<lparr>tickSEMap := [(960, ''perfect'') \<mapsto> 960]\<rparr>" exExternals]
  by (simp add: playingEditor_def exEditor_def)

end
